theory Spec2Isabelle
  imports Complex_Main
begin

section \<open>Audit log and approval lifecycle (core/audit/service.py)\<close>

text \<open>
  \<^verbatim>\<open>ApprovalStatus\<close> is the enum of core/audit/models.py. An \<^verbatim>\<open>AuditLogDB\<close> row keeps the
  columns that the approve, reject and flag operations read or write. The table is a list
  of rows in storage order; \<^verbatim>\<open>query(...).filter(audit_id == x).first()\<close> is the first row
  with that id. Timestamps (\<^verbatim>\<open>datetime.utcnow()\<close>) are passed in as an integer.
\<close>

datatype ApprovalStatus = PENDING | APPROVED | REJECTED | FLAGGED

record AuditLogDB =
  audit_id :: string
  approval_status :: ApprovalStatus
  approved_by :: "string option"
  approval_reason :: "string option"
  approved_at :: "int option"
  flags :: "string list option"

fun query_first :: "string \<Rightarrow> AuditLogDB list \<Rightarrow> AuditLogDB option" where
  "query_first aid [] = None"
| "query_first aid (e # es) = (if audit_id e = aid then Some e else query_first aid es)"

text \<open>Writing back the attributes of the row that \<^verbatim>\<open>first()\<close> returned.\<close>

fun update_first :: "string \<Rightarrow> (AuditLogDB \<Rightarrow> AuditLogDB) \<Rightarrow> AuditLogDB list \<Rightarrow> AuditLogDB list" where
  "update_first aid f [] = []"
| "update_first aid f (e # es) = (if audit_id e = aid then f e # es else e # update_first aid f es)"

definition approve_recommendation ::
  "AuditLogDB list \<Rightarrow> string \<Rightarrow> string \<Rightarrow> string option \<Rightarrow> int \<Rightarrow> AuditLogDB list \<times> bool" where
  "approve_recommendation db aid who reason now =
     (case query_first aid db of
        None \<Rightarrow> (db, False)
      | Some _ \<Rightarrow>
          (update_first aid
             (\<lambda>e. e\<lparr>approval_status := APPROVED, approved_by := Some who,
                     approval_reason := reason, approved_at := Some now\<rparr>) db,
           True))"

definition reject_recommendation ::
  "AuditLogDB list \<Rightarrow> string \<Rightarrow> string \<Rightarrow> string \<Rightarrow> int \<Rightarrow> AuditLogDB list \<times> bool" where
  "reject_recommendation db aid who reason now =
     (case query_first aid db of
        None \<Rightarrow> (db, False)
      | Some _ \<Rightarrow>
          (update_first aid
             (\<lambda>e. e\<lparr>approval_status := REJECTED, approved_by := Some who,
                     approval_reason := Some reason, approved_at := Some now\<rparr>) db,
           True))"

text \<open>
  \<^verbatim>\<open>if not audit_entry.flags: audit_entry.flags = []\<close> treats both a NULL column and an
  empty list as empty before the reason is appended.
\<close>

definition append_flag :: "string list option \<Rightarrow> string \<Rightarrow> string list option" where
  "append_flag fl r = (case fl of None \<Rightarrow> Some [r] | Some rs \<Rightarrow> Some (rs @ [r]))"

definition flag_recommendation ::
  "AuditLogDB list \<Rightarrow> string \<Rightarrow> string \<Rightarrow> AuditLogDB list \<times> bool" where
  "flag_recommendation db aid flag_reason =
     (case query_first aid db of
        None \<Rightarrow> (db, False)
      | Some _ \<Rightarrow>
          (update_first aid
             (\<lambda>e. e\<lparr>approval_status := FLAGGED, flags := append_flag (flags e) flag_reason\<rparr>) db,
           True))"

text \<open>The operations of the audit API as a datatype, and a run of them in sequence.\<close>

datatype audit_op =
    Approve string string "string option" int
  | Reject string string string int
  | Flag string string

fun apply_audit_op :: "AuditLogDB list \<Rightarrow> audit_op \<Rightarrow> AuditLogDB list \<times> bool" where
  "apply_audit_op db (Approve aid who reason now) = approve_recommendation db aid who reason now"
| "apply_audit_op db (Reject aid who reason now) = reject_recommendation db aid who reason now"
| "apply_audit_op db (Flag aid r) = flag_recommendation db aid r"

fun op_target :: "audit_op \<Rightarrow> string" where
  "op_target (Approve aid _ _ _) = aid"
| "op_target (Reject aid _ _ _) = aid"
| "op_target (Flag aid _) = aid"

fun op_status :: "audit_op \<Rightarrow> ApprovalStatus" where
  "op_status (Approve _ _ _ _) = APPROVED"
| "op_status (Reject _ _ _ _) = REJECTED"
| "op_status (Flag _ _) = FLAGGED"

definition status_of :: "string \<Rightarrow> AuditLogDB list \<Rightarrow> ApprovalStatus option" where
  "status_of aid db = map_option approval_status (query_first aid db)"

definition rejected_entry :: AuditLogDB where
  "rejected_entry = \<lparr>audit_id = ''a1'', approval_status = REJECTED, approved_by = Some ''admin'',
     approval_reason = Some ''Low score'', approved_at = Some 10, flags = Some []\<rparr>"

section \<open>Clean tables read by the recommendation engine (core/db/models.py)\<close>

text \<open>
  Dates are day numbers (\<^verbatim>\<open>(a - b).days\<close> is integer subtraction), float columns are
  real numbers. Columns carry the prefix of the SQL alias the queries use (\<^verbatim>\<open>p.\<close>,
  \<^verbatim>\<open>ol.\<close>). A nullable column is an option. \<^verbatim>\<open>connected\<close> tells whether statements sent
  through the session succeed; when it is false every \<^verbatim>\<open>execute\<close> raises, which the
  callers catch in their \<^verbatim>\<open>except Exception\<close> branches.

  A statement that names a column its table does not have raises as well, whatever the
  session. The failure is that statement's alone, as on the SQLite databases of the
  tests: the statements sent after it still run. The rows of the product table carry the columns \<^verbatim>\<open>product_key\<close>, \<^verbatim>\<open>family\<close> and
  \<^verbatim>\<open>popularity_score\<close>, as the product tables created in \<^verbatim>\<open>tests/test_recommendation.py\<close>
  and \<^verbatim>\<open>tests/test_api.py\<close> do; \<^verbatim>\<open>product_extra_columns\<close> names the other columns of the
  table. \<^verbatim>\<open>client_master_profile_columns\<close> names all the columns of the profile table; a
  row of \<^verbatim>\<open>client_master_profile\<close> is a customer code with the values stored under
  \<^verbatim>\<open>rfm_score\<close> and \<^verbatim>\<open>segment\<close>, which only a table with these columns can hold.
\<close>

type_synonym date = int

record Product =
  p_product_key :: string
  p_family :: "string option"
  p_popularity_score :: "real option"

record OrderLine =
  ol_customer_code :: string
  ol_product_key :: string
  ol_order_date :: date
  ol_amount_ht :: real

record ContactEvent =
  ce_customer_code :: string
  ce_contact_date :: date

record Database =
  connected :: bool
  product :: "Product list"
  order_line :: "OrderLine list"
  contact_event :: "ContactEvent list"
  customer :: "string list"
  client_master_profile :: "(string \<times> int \<times> string) list"
  product_extra_columns :: "string list"
  client_master_profile_columns :: "string list"

text \<open>
  The columns of the product table of the tests besides the three above
  (\<^verbatim>\<open>CREATE TABLE product (product_key, product_name, family, aroma_axes, is_premium,
  popularity_score)\<close>), all the columns of the product table of \<^verbatim>\<open>core/db/models.py\<close> and
  of the migration \<^verbatim>\<open>alembic/versions/001_initial_schema.py\<close>, and all the columns of
  their \<^verbatim>\<open>client_master_profile\<close> table.
\<close>

definition tests_product_extra_columns :: "string list" where
  "tests_product_extra_columns = [''product_name'', ''aroma_axes'', ''is_premium'']"

definition models_product_columns :: "string list" where
  "models_product_columns =
     [''product_key'', ''product_label'', ''family_crm'', ''cepage'', ''sucrosite_niveau'',
      ''price_band'', ''premium_tier'', ''aroma_fruit'', ''aroma_floral'', ''aroma_spice'',
      ''aroma_mineral'', ''aroma_acidity'', ''aroma_body'', ''aroma_tannin'', ''is_active'',
      ''is_archived'', ''season_tags'', ''global_popularity_score'', ''created_at'',
      ''updated_at'']"

definition models_client_master_profile_columns :: "string list" where
  "models_client_master_profile_columns =
     [''id'', ''customer_code'', ''premiere_date_achat'', ''derniere_date_achat'',
      ''recence_jours'', ''nb_commandes'', ''ca_ht'', ''r_score'', ''f_score'', ''m_score'',
      ''rfm'', ''segment'', ''top_family_1'', ''top_family_1_ca_share'', ''top_family_2'',
      ''top_family_2_ca_share'', ''family_diversity_score'', ''top_grape_1'',
      ''top_grape_1_ca_share'', ''top_grape_2'', ''top_grape_2_ca_share'', ''top_sugar_1'',
      ''top_sugar_1_ca_share'', ''top_sugar_2'', ''top_sugar_2_ca_share'', ''top_budget_1'',
      ''top_budget_1_ca_share'', ''top_budget_2'', ''top_budget_2_ca_share'', ''aroma_axe_1'',
      ''aroma_score_1'', ''aroma_axe_2'', ''aroma_score_2'', ''aroma_axe_3'', ''aroma_score_3'',
      ''aroma_confidence'', ''aroma_level'', ''created_at'', ''updated_at'']"

text \<open>SQL \<^verbatim>\<open>MAX\<close> over a column: NULL (None) on no rows.\<close>

fun sql_max :: "int list \<Rightarrow> int option" where
  "sql_max [] = None"
| "sql_max (x # xs) = (case sql_max xs of None \<Rightarrow> Some x | Some m \<Rightarrow> Some (max x m))"

text \<open>Python truthiness of a nullable string: None and the empty string are false.\<close>

definition truthy :: "string option \<Rightarrow> bool" where
  "truthy v = (case v of None \<Rightarrow> False | Some s \<Rightarrow> s \<noteq> [])"

text \<open>Python's \<^verbatim>\<open>xs[:k]\<close>: a negative bound counts from the end.\<close>

definition py_prefix :: "int \<Rightarrow> 'a list \<Rightarrow> 'a list" where
  "py_prefix k xs = (if 0 \<le> k then take (nat k) xs else take (length xs - nat (- k)) xs)"

section \<open>Feature computer: silence window (core/recommendation/feature_computer.py)\<close>

definition contact_dates :: "Database \<Rightarrow> string \<Rightarrow> date list" where
  "contact_dates db customer_code =
     map ce_contact_date (filter (\<lambda>e. ce_customer_code e = customer_code) (contact_event db))"

definition get_silence_window :: "Database \<Rightarrow> string \<Rightarrow> date \<Rightarrow> int \<Rightarrow> bool" where
  "get_silence_window db customer_code today days =
     (if \<not> connected db then False
      else case sql_max (contact_dates db customer_code) of
             None \<Rightarrow> False
           | Some last_contact \<Rightarrow> today - last_contact < days)"

section \<open>Scorer (core/recommendation/scorer.py)\<close>

datatype RecoScenario = REBUY | CROSS_SELL | UPSELL | WINBACK | NURTURE

record RecoScore =
  product_key :: string
  scenario :: RecoScenario
  base_score :: real
  affinity_score :: real
  popularity_score :: real
  profit_score :: real
  final_score :: real

text \<open>\<^verbatim>\<open>SELECT ... FROM product WHERE product_key = :pk\<close> followed by \<^verbatim>\<open>fetchone()\<close>.\<close>

fun fetch_product :: "Product list \<Rightarrow> string \<Rightarrow> Product option" where
  "fetch_product [] pk = None"
| "fetch_product (p # ps) pk = (if p_product_key p = pk then Some p else fetch_product ps pk)"

text \<open>
  The families of the customer's order lines, one per joined row
  (\<^verbatim>\<open>order_line ol JOIN product p ON ol.product_key = p.product_key\<close>).
\<close>

definition purchased_families :: "Database \<Rightarrow> string \<Rightarrow> string option list" where
  "purchased_families db customer_code =
     concat (map (\<lambda>ol. map p_family (filter (\<lambda>p. p_product_key p = ol_product_key ol) (product db)))
                 (filter (\<lambda>ol. ol_customer_code ol = customer_code) (order_line db)))"

text \<open>
  \<^verbatim>\<open>GROUP BY p.family ORDER BY COUNT(*) DESC LIMIT 1\<close>: a family with the greatest number of
  joined rows. SQL leaves the choice among families of equal count open; the model fixes
  one of them by the order of the list of distinct families. The result is None when there is no row, and \<^verbatim>\<open>Some f\<close> for the row
  \<^verbatim>\<open>(f,)\<close>, where \<^verbatim>\<open>f\<close> itself may be NULL.
\<close>

fun top_group :: "'a list \<Rightarrow> 'a list \<Rightarrow> 'a option" where
  "top_group all [] = None"
| "top_group all (g # gs) =
     (case top_group all gs of
        None \<Rightarrow> Some g
      | Some h \<Rightarrow> if count_list all h \<le> count_list all g then Some g else Some h)"

definition preferred_family :: "Database \<Rightarrow> string \<Rightarrow> string option option" where
  "preferred_family db customer_code =
     (let fams = purchased_families db customer_code in top_group fams (remdups (rev fams)))"

text \<open>
  The whole body of \<^verbatim>\<open>compute_affinity_score\<close> is one \<^verbatim>\<open>try\<close> whose \<^verbatim>\<open>except Exception\<close>
  returns 50.0. Its second statement is
  \<^verbatim>\<open>SELECT family, aroma_axes, price_level FROM product WHERE product_key = :product_key\<close>;
  it raises unless the product table has the columns \<^verbatim>\<open>aroma_axes\<close> and \<^verbatim>\<open>price_level\<close>
  besides \<^verbatim>\<open>family\<close>.
\<close>

definition compute_affinity_score :: "Database \<Rightarrow> string \<Rightarrow> string \<Rightarrow> real" where
  "compute_affinity_score db customer_code pk =
     (if \<not> connected db then 50
      else if \<not> (''aroma_axes'' \<in> set (product_extra_columns db) \<and>
                  ''price_level'' \<in> set (product_extra_columns db)) then 50
      else case fetch_product (product db) pk of
             None \<Rightarrow> 50
           | Some row \<Rightarrow>
               (let score = 50;
                    score = (if preferred_family db customer_code \<noteq> None \<and>
                                Some (p_family row) = preferred_family db customer_code
                             then score + 25
                             else if truthy (p_family row) then score + 10
                             else score)
                in min 100 score))"

text \<open>\<^verbatim>\<open>float(row[0]) * 100.0 if row[0] else 50.0\<close>: a NULL and a zero popularity are both false.\<close>

definition compute_popularity_score :: "Database \<Rightarrow> string \<Rightarrow> real" where
  "compute_popularity_score db pk =
     (if \<not> connected db then 50
      else case fetch_product (product db) pk of
             None \<Rightarrow> 50
           | Some row \<Rightarrow>
               (case p_popularity_score row of
                  None \<Rightarrow> 50
                | Some v \<Rightarrow> if v \<noteq> 0 then v * 100 else 50))"

definition compute_profit_score :: "Database \<Rightarrow> string \<Rightarrow> real" where
  "compute_profit_score db pk =
     (if \<not> connected db then 50
      else case fetch_product (product db) pk of
             None \<Rightarrow> 50
           | Some row \<Rightarrow>
               (case p_popularity_score row of
                  None \<Rightarrow> 50
                | Some v \<Rightarrow> if v \<noteq> 0 then v * 100 else 50))"

definition score_recommendation ::
  "Database \<Rightarrow> string \<Rightarrow> string \<Rightarrow> RecoScenario \<Rightarrow> real \<Rightarrow> RecoScore" where
  "score_recommendation db customer_code pk scen base =
     (let affinity = compute_affinity_score db customer_code pk;
          popularity = compute_popularity_score db pk;
          profit = compute_profit_score db pk;
          final = 0.40 * affinity + 0.30 * popularity + 0.20 * profit + 0.10 * base
      in \<lparr>product_key = pk, scenario = scen, base_score = base, affinity_score = affinity,
          popularity_score = popularity, profit_score = profit, final_score = final\<rparr>)"

text \<open>
  \<^verbatim>\<open>sorted(scores, key=lambda x: x.final_score, reverse=True)\<close> is stable: scores of equal
  value keep their order. Sorting by the negated score with the stable insertion sort of
  the library gives the same list.
\<close>

definition rank_recommendations :: "RecoScore list \<Rightarrow> int \<Rightarrow> RecoScore list" where
  "rank_recommendations scores max_recommendations =
     py_prefix max_recommendations (sort_key (\<lambda>x. - final_score x) scores)"

text \<open>
  The selection loop of \<^verbatim>\<open>diversify_recommendations\<close>. \<^verbatim>\<open>families\<close> is the dictionary
  from product key to family built before the loop, \<^verbatim>\<open>selected\<close> and \<^verbatim>\<open>used_families\<close>
  are the loop's two variables; the loop breaks as soon as \<^verbatim>\<open>selected\<close> holds
  \<^verbatim>\<open>max_recommendations\<close> entries.
\<close>

fun diversify_loop ::
  "(string \<Rightarrow> string option) \<Rightarrow> int \<Rightarrow> RecoScore list \<Rightarrow> RecoScore list \<Rightarrow> string option set
     \<Rightarrow> RecoScore list" where
  "diversify_loop families max_recommendations [] selected used_families = selected"
| "diversify_loop families max_recommendations (score # rest) selected used_families =
     (let fam = families (product_key score);
          step =
            (if selected = [] then
               (selected @ [score], if truthy fam then insert fam used_families else used_families)
             else if fam \<notin> used_families then (selected @ [score], insert fam used_families)
             else if int (length selected) < max_recommendations then (selected @ [score], used_families)
             else (selected, used_families))
      in if max_recommendations \<le> int (length (fst step)) then fst step
         else diversify_loop families max_recommendations rest (fst step) (snd step))"

definition product_family :: "Database \<Rightarrow> string \<Rightarrow> string option" where
  "product_family db pk = (case fetch_product (product db) pk of None \<Rightarrow> None | Some p \<Rightarrow> p_family p)"

definition diversify_recommendations :: "Database \<Rightarrow> RecoScore list \<Rightarrow> int \<Rightarrow> RecoScore list" where
  "diversify_recommendations db ranked_scores max_recommendations =
     (if ranked_scores = [] then []
      else if \<not> connected db then py_prefix max_recommendations ranked_scores
      else diversify_loop (product_family db) max_recommendations ranked_scores [] {})"

section \<open>Engine (core/recommendation/engine.py)\<close>

record RecommendationItem =
  item_rank :: int
  item_product_key :: string
  item_scenario :: RecoScenario
  item_score :: RecoScore

text \<open>A row of \<^verbatim>\<open>reco_item\<close> as \<^verbatim>\<open>_save_recommendations\<close> inserts it.\<close>

record RecoItemRow =
  reco_run_id :: string
  reco_customer_code :: string
  reco_rank :: int
  reco_scenario :: RecoScenario
  reco_product_key :: string
  score_total :: real
  score_affinity :: real
  score_popularity :: real
  score_profit :: real

fun scenario_base_scores :: "RecoScenario \<Rightarrow> real" where
  "scenario_base_scores REBUY = 85"
| "scenario_base_scores CROSS_SELL = 75"
| "scenario_base_scores UPSELL = 80"
| "scenario_base_scores WINBACK = 70"
| "scenario_base_scores NURTURE = 65"

text \<open>\<^verbatim>\<open>enumerate(diversified, start=1)\<close> building one item per score.\<close>

fun enumerate_items :: "int \<Rightarrow> RecoScore list \<Rightarrow> RecommendationItem list" where
  "enumerate_items n [] = []"
| "enumerate_items n (s # ss) =
     \<lparr>item_rank = n, item_product_key = product_key s, item_scenario = scenario s, item_score = s\<rparr>
       # enumerate_items (n + 1) ss"

text \<open>
  \<^verbatim>\<open>_save_recommendations\<close> inserts every item and commits; any exception rolls the
  whole transaction back and is swallowed. The value is the list of rows that the run has
  added to \<^verbatim>\<open>reco_item\<close>.
\<close>

definition save_recommendations ::
  "Database \<Rightarrow> string \<Rightarrow> string \<Rightarrow> RecommendationItem list \<Rightarrow> RecoItemRow list" where
  "save_recommendations db run_id customer_code items =
     (if \<not> connected db then []
      else map (\<lambda>item. \<lparr>reco_run_id = run_id, reco_customer_code = customer_code,
                       reco_rank = item_rank item, reco_scenario = item_scenario item,
                       reco_product_key = item_product_key item,
                       score_total = final_score (item_score item),
                       score_affinity = affinity_score (item_score item),
                       score_popularity = popularity_score (item_score item),
                       score_profit = profit_score (item_score item)\<rparr>) items)"

text \<open>
  \<^verbatim>\<open>generate_recommendations\<close>. \<^verbatim>\<open>scenarios_match\<close> is the dictionary that
  \<^verbatim>\<open>ScenarioMatcher.match_scenarios\<close> returned for the customer, in its insertion order;
  \<^verbatim>\<open>run_id\<close> is the fresh UUID and \<^verbatim>\<open>today\<close> the current date. The value is the list
  of recommendations of the result, the success flag, and the rows persisted to
  \<^verbatim>\<open>reco_item\<close>. The feature dictionary and the explanations do not influence any of
  the three and are left out.
\<close>

definition generate_recommendations ::
  "Database \<Rightarrow> (RecoScenario \<times> string list) list \<Rightarrow> string \<Rightarrow> date \<Rightarrow> string \<Rightarrow> int \<Rightarrow> bool
     \<Rightarrow> RecommendationItem list \<times> bool \<times> RecoItemRow list" where
  "generate_recommendations db scenarios_match run_id today customer_code max_recommendations
       enable_silence_check =
     (if enable_silence_check \<and> get_silence_window db customer_code today 30 then ([], False, [])
      else if scenarios_match = [] then ([], False, [])
      else
        (let all_scores =
               concat (map (\<lambda>(scen, products).
                              map (\<lambda>pk. score_recommendation db customer_code pk scen
                                           (scenario_base_scores scen)) products)
                           scenarios_match)
         in if all_scores = [] then ([], False, [])
            else
              (let ranked = rank_recommendations all_scores max_recommendations;
                   diversified = diversify_recommendations db ranked max_recommendations;
                   items = enumerate_items 1 diversified
               in (items, True, save_recommendations db run_id customer_code items))))"

definition silence_db :: Database where
  "silence_db = \<lparr>connected = True,
     product = [\<lparr>p_product_key = ''WINE001'', p_family = Some ''Red'', p_popularity_score = Some 0.8\<rparr>],
     order_line = [\<lparr>ol_customer_code = ''C001'', ol_product_key = ''WINE001'',
                     ol_order_date = 880, ol_amount_ht = 42\<rparr>],
     contact_event = [\<lparr>ce_customer_code = ''C001'', ce_contact_date = 950\<rparr>,
                      \<lparr>ce_customer_code = ''C001'', ce_contact_date = 971\<rparr>,
                      \<lparr>ce_customer_code = ''C002'', ce_contact_date = 999\<rparr>],
     customer = [''C001'', ''C002''],
     client_master_profile = [],
     product_extra_columns = tests_product_extra_columns,
     client_master_profile_columns = models_client_master_profile_columns\<rparr>"

text \<open>
  The ranked candidates of the diversification example: P1 and P2 of family Red, P3 of
  family White, with final scores 90, 88 and 70.
\<close>

definition e5_db :: Database where
  "e5_db = \<lparr>connected = True,
     product = [\<lparr>p_product_key = ''P1'', p_family = Some ''Red'', p_popularity_score = Some 0.9\<rparr>,
                \<lparr>p_product_key = ''P2'', p_family = Some ''Red'', p_popularity_score = Some 0.8\<rparr>,
                \<lparr>p_product_key = ''P3'', p_family = Some ''White'', p_popularity_score = Some 0.7\<rparr>],
     order_line = [], contact_event = [], customer = [], client_master_profile = [],
     product_extra_columns = tests_product_extra_columns,
     client_master_profile_columns = models_client_master_profile_columns\<rparr>"

definition e5_score :: "RecoScenario \<Rightarrow> string \<Rightarrow> real \<Rightarrow> RecoScore" where
  "e5_score scen pk final = \<lparr>product_key = pk, scenario = scen, base_score = 0, affinity_score = 0,
      popularity_score = 0, profit_score = 0, final_score = final\<rparr>"

definition e5_ranked :: "RecoScore list" where
  "e5_ranked = [e5_score REBUY ''P1'' 90, e5_score REBUY ''P2'' 88, e5_score CROSS_SELL ''P3'' 70]"

text \<open>A catalogue whose only product has the popularity 0.\<close>

definition zero_popularity_db :: Database where
  "zero_popularity_db = \<lparr>connected = True,
     product = [\<lparr>p_product_key = ''WINE000'', p_family = Some ''Red'', p_popularity_score = Some 0\<rparr>],
     order_line = [], contact_event = [], customer = [''C001''], client_master_profile = [],
     product_extra_columns = tests_product_extra_columns,
     client_master_profile_columns = models_client_master_profile_columns\<rparr>"

section \<open>Master profiles (core/transform/transform_loaders.py)\<close>

text \<open>
  \<^verbatim>\<open>compute_rfm_scores\<close> aggregates the customer's order lines (\<^verbatim>\<open>GROUP BY customer_code\<close>
  gives no row when there is none) and returns the placeholder 3 for each component whose
  aggregate is true in Python: a date and a positive count always are, a total amount is
  unless it is 0. For each customer \<^verbatim>\<open>build_profiles\<close> sends
  \<^verbatim>\<open>INSERT INTO client_master_profile (customer_code, rfm_score, segment) ... ON CONFLICT
  (customer_code) DO UPDATE SET rfm_score = :rfm_score, segment = :segment\<close> with the
  constant segment \<^verbatim>\<open>'STANDARD'\<close>, inside a \<^verbatim>\<open>try\<close> of its own: on a table that lacks one
  of the three columns the statement raises, the \<^verbatim>\<open>except\<close> branch logs a warning, no
  row is written and \<^verbatim>\<open>created\<close> is not incremented. The table is keyed by customer code.
\<close>

definition customer_order_lines :: "Database \<Rightarrow> string \<Rightarrow> OrderLine list" where
  "customer_order_lines db customer_code =
     filter (\<lambda>ol. ol_customer_code ol = customer_code) (order_line db)"

definition compute_rfm_scores :: "Database \<Rightarrow> string \<Rightarrow> int option \<times> int option \<times> int option" where
  "compute_rfm_scores db customer_code =
     (if \<not> connected db then (None, None, None)
      else case customer_order_lines db customer_code of
             [] \<Rightarrow> (None, None, None)
           | l # ls \<Rightarrow>
               (let total_amount = sum_list (map ol_amount_ht (l # ls));
                    recency = Some 3;
                    frequency = Some 3;
                    monetary = (if total_amount \<noteq> 0 then Some 3 else None)
                in (recency, frequency, monetary)))"

definition or_zero :: "int option \<Rightarrow> int" where
  "or_zero v = (case v of None \<Rightarrow> 0 | Some n \<Rightarrow> n)"

fun upsert_profile :: "string \<Rightarrow> int \<times> string \<Rightarrow> (string \<times> int \<times> string) list
     \<Rightarrow> (string \<times> int \<times> string) list" where
  "upsert_profile c v [] = [(c, v)]"
| "upsert_profile c v ((k, w) # rest) =
     (if k = c then (k, v) # rest else (k, w) # upsert_profile c v rest)"

definition profile_row :: "Database \<Rightarrow> string \<Rightarrow> int \<times> string" where
  "profile_row db customer_code =
     (case compute_rfm_scores db customer_code of
        (recency, frequency, monetary) \<Rightarrow>
          (or_zero recency + or_zero frequency + or_zero monetary, ''STANDARD''))"

fun build_profiles_loop :: "Database \<Rightarrow> string list \<Rightarrow> (string \<times> int \<times> string) list \<Rightarrow> int
     \<Rightarrow> (string \<times> int \<times> string) list \<times> int" where
  "build_profiles_loop db [] table created = (table, created)"
| "build_profiles_loop db (customer_code # rest) table created =
     (if ''customer_code'' \<in> set (client_master_profile_columns db) \<and>
         ''rfm_score'' \<in> set (client_master_profile_columns db) \<and>
         ''segment'' \<in> set (client_master_profile_columns db)
      then build_profiles_loop db rest
             (upsert_profile customer_code (profile_row db customer_code) table) (created + 1)
      else build_profiles_loop db rest table created)"

definition build_profiles :: "Database \<Rightarrow> Database \<times> int" where
  "build_profiles db =
     (if \<not> connected db then (db, 0)
      else case build_profiles_loop db (customer db) (client_master_profile db) 0 of
             (table, created) \<Rightarrow> (db\<lparr>client_master_profile := table\<rparr>, created))"

definition profile_of :: "Database \<Rightarrow> string \<Rightarrow> (int \<times> string) option" where
  "profile_of db customer_code = map_of (client_master_profile db) customer_code"

section \<open>Scenario matcher: NURTURE (core/recommendation/scenario_matcher.py)\<close>

text \<open>
  \<^verbatim>\<open>ORDER BY RANDOM()\<close> evaluates \<^verbatim>\<open>RANDOM()\<close> once per row and sorts the rows by that
  value. The values are drawn by the database server; \<^verbatim>\<open>match_nurture\<close> has the customer
  code as its only parameter and passes no seed, so the draws are an input of the model:
  \<^verbatim>\<open>rnd i\<close> is the value drawn for the i-th row. \<^verbatim>\<open>COUNT(*)\<close> counts the customer's
  order lines; \<^verbatim>\<open>if not count or count > 3\<close> returns None for 0 as well.
\<close>

definition order_by_random :: "(nat \<Rightarrow> real) \<Rightarrow> 'a list \<Rightarrow> 'a list" where
  "order_by_random rnd rows = map snd (sort_key fst (zip (map rnd [0..<length rows]) rows))"

definition nurture_eligible :: "Database \<Rightarrow> Product list" where
  "nurture_eligible db =
     filter (\<lambda>p. (case p_popularity_score p of None \<Rightarrow> False | Some v \<Rightarrow> 0.3 \<le> v) \<and>
                  p_family p \<noteq> None) (product db)"

definition nurture_rows :: "Database \<Rightarrow> (nat \<Rightarrow> real) \<Rightarrow> Product list" where
  "nurture_rows db rnd = take 3 (order_by_random rnd (nurture_eligible db))"

definition match_nurture :: "Database \<Rightarrow> string \<Rightarrow> (nat \<Rightarrow> real) \<Rightarrow> string list option" where
  "match_nurture db customer_code rnd =
     (if \<not> connected db then None
      else let count = length (customer_order_lines db customer_code)
           in if count = 0 \<or> 3 < count then None
              else let products = map p_product_key (nurture_rows db rnd)
                   in if products = [] then None else Some products)"

definition nurture_db :: Database where
  "nurture_db = e5_db\<lparr>order_line :=
     [\<lparr>ol_customer_code = ''C001'', ol_product_key = ''P1'', ol_order_date = 990, ol_amount_ht = 12\<rparr>],
     customer := [''C001'', ''C002'']\<rparr>"

definition draws_ascending :: "nat \<Rightarrow> real" where
  "draws_ascending i = real i / 10"

definition draws_descending :: "nat \<Rightarrow> real" where
  "draws_descending i = 1 - real i / 10"

section \<open>Raw staging load (core/ingestion/loaders.py)\<close>

text \<open>
  A row of \<^verbatim>\<open>raw_customers\<close> is (batch_id, row_hash, row_data); the table is declared
  \<^verbatim>\<open>UNIQUE(batch_id, row_hash)\<close>. The serial id and the creation time of a stored row
  are never rewritten and are left out. \<^verbatim>\<open>calculate_row_hash\<close> (SHA-256 of the row's JSON
  with sorted keys, from hashlib) is a parameter. Every row is written with a plain
  \<^verbatim>\<open>INSERT\<close> inside a per-row \<^verbatim>\<open>try\<close>; an insert that violates the constraint raises and
  is recorded in \<^verbatim>\<open>errors\<close>. \<^verbatim>\<open>tx_aborts\<close> is the behaviour of the database after a failed
  statement: on PostgreSQL the transaction is aborted, so every later statement fails and
  the final \<^verbatim>\<open>commit\<close> rolls back; otherwise only the failed statement is lost. The loop's
  variables are the table as the transaction sees it, whether the transaction has failed,
  \<^verbatim>\<open>loaded_count\<close> and \<^verbatim>\<open>errors\<close> (kept as the row labels \<^verbatim>\<open>loaded_count + 1\<close>).
\<close>

type_synonym 'r raw_table = "(string \<times> string \<times> 'r) list"

definition raw_keys :: "'r raw_table \<Rightarrow> (string \<times> string) set" where
  "raw_keys t = (\<lambda>(b, h, d). (b, h)) ` set t"

fun load_loop ::
  "bool \<Rightarrow> ('r \<Rightarrow> string) \<Rightarrow> string \<Rightarrow> 'r list \<Rightarrow> 'r raw_table \<Rightarrow> bool \<Rightarrow> nat \<Rightarrow> nat list
     \<Rightarrow> 'r raw_table \<times> bool \<times> nat \<times> nat list" where
  "load_loop tx_aborts calculate_row_hash batch_id [] t failed loaded_count errors =
     (t, failed, loaded_count, errors)"
| "load_loop tx_aborts calculate_row_hash batch_id (row # rows) t failed loaded_count errors =
     (if failed then
        load_loop tx_aborts calculate_row_hash batch_id rows t failed loaded_count
          (errors @ [loaded_count + 1])
      else if (batch_id, calculate_row_hash row) \<in> raw_keys t then
        load_loop tx_aborts calculate_row_hash batch_id rows t tx_aborts loaded_count
          (errors @ [loaded_count + 1])
      else
        load_loop tx_aborts calculate_row_hash batch_id rows
          (t @ [(batch_id, calculate_row_hash row, row)]) failed (loaded_count + 1) errors)"

definition load_raw_customers ::
  "bool \<Rightarrow> ('r \<Rightarrow> string) \<Rightarrow> 'r raw_table \<Rightarrow> 'r list \<Rightarrow> string \<Rightarrow> 'r raw_table \<times> nat \<times> nat list" where
  "load_raw_customers tx_aborts calculate_row_hash raw_customers rows batch_id =
     (if rows = [] then (raw_customers, 0, [])
      else case load_loop tx_aborts calculate_row_hash batch_id rows raw_customers False 0 [] of
             (t, failed, loaded_count, errors) \<Rightarrow>
               (if failed then raw_customers else t, loaded_count, errors))"

definition raw_key :: "string \<times> string \<times> 'r \<Rightarrow> string \<times> string" where
  "raw_key r = (case r of (b, h, d) \<Rightarrow> (b, h))"

section \<open>Customer batch validation (core/ingestion/validators.py, schemas.py)\<close>

text \<open>
  Strings are lists of ASCII characters. \<^verbatim>\<open>str.strip()\<close> removes the characters for
  which \<^verbatim>\<open>str.isspace()\<close> holds (\<^verbatim>\<open>py_space\<close>); the \<^verbatim>\<open>str_strip_whitespace\<close> option of
  the schema trims the white space of its own, smaller, set (\<^verbatim>\<open>ws_space\<close>) before the
  field validators run. \<^verbatim>\<open>email_format\<close> is the match of
  \<^verbatim>\<open>^[^@]+@[^@]+\.[^@]+$\<close>: a non-empty local part, one single \<^verbatim>\<open>@\<close>, and a dot inside
  the rest with at least one character on each side. \<^verbatim>\<open>postal_format\<close> is the match of
  \<^verbatim>\<open>^[a-zA-Z0-9\-]{2,20}$\<close>. Both are applied to stripped strings, which do not end
  with a newline.
\<close>

fun drop_trailing :: "('a \<Rightarrow> bool) \<Rightarrow> 'a list \<Rightarrow> 'a list" where
  "drop_trailing P [] = []"
| "drop_trailing P (x # xs) =
     (case drop_trailing P xs of
        [] \<Rightarrow> if P x then [] else [x]
      | y # ys \<Rightarrow> x # y # ys)"

definition py_space :: "char \<Rightarrow> bool" where
  "py_space ch = (ch \<in> {CHR 0x09, CHR 0x0A, CHR 0x0B, CHR 0x0C, CHR 0x0D,
                        CHR 0x1C, CHR 0x1D, CHR 0x1E, CHR 0x1F, CHR 0x20})"

definition py_strip :: "string \<Rightarrow> string" where
  "py_strip s = drop_trailing py_space (dropWhile py_space s)"

definition ws_space :: "char \<Rightarrow> bool" where
  "ws_space ch = (ch \<in> {CHR 0x09, CHR 0x0A, CHR 0x0B, CHR 0x0C, CHR 0x0D, CHR 0x20})"

definition ws_trim :: "string \<Rightarrow> string" where
  "ws_trim s = drop_trailing ws_space (dropWhile ws_space s)"

definition py_lower :: "string \<Rightarrow> string" where
  "py_lower s = map (\<lambda>ch. case map_of (zip ''ABCDEFGHIJKLMNOPQRSTUVWXYZ''
                                          ''abcdefghijklmnopqrstuvwxyz'') ch of
                            None \<Rightarrow> ch | Some l \<Rightarrow> l) s"

definition email_format :: "string \<Rightarrow> bool" where
  "email_format s =
     (let local_part = takeWhile (\<lambda>ch. ch \<noteq> CHR ''@'') s;
          rest = dropWhile (\<lambda>ch. ch \<noteq> CHR ''@'') s
      in local_part \<noteq> [] \<and> rest \<noteq> [] \<and> CHR ''@'' \<notin> set (tl rest) \<and>
         CHR ''.'' \<in> set (butlast (tl (tl rest))))"

definition postal_format :: "string \<Rightarrow> bool" where
  "postal_format s =
     (2 \<le> length s \<and> length s \<le> 20 \<and>
      (\<forall>ch \<in> set s. ch \<in> set ''abcdefghijklmnopqrstuvwxyzABCDEFGHIJKLMNOPQRSTUVWXYZ0123456789-''))"

text \<open>
  A row as \<^verbatim>\<open>CustomerReader\<close> hands it over: a dictionary whose values are strings or
  None; None in \<^verbatim>\<open>raw_customer_code\<close> stands for a missing key, for which
  \<^verbatim>\<open>row.get('customer_code', '')\<close> is the empty string. \<^verbatim>\<open>CustomerSchema\<close> is the
  validated row (\<^verbatim>\<open>model_dump()\<close>). An \<^verbatim>\<open>IngestionError\<close> keeps the row number, the
  file type, the error code and the raw row; the message text is left out.
\<close>

record RawCustomer =
  raw_customer_code :: "string option"
  raw_last_name :: "string option"
  raw_first_name :: "string option"
  raw_email :: "string option"
  raw_phone :: "string option"
  raw_address :: "string option"
  raw_postal_code :: "string option"
  raw_city :: "string option"
  raw_country :: "string option"

record CustomerSchema =
  customer_code :: string
  last_name :: "string option"
  first_name :: "string option"
  email :: "string option"
  phone :: "string option"
  address :: "string option"
  postal_code :: "string option"
  city :: "string option"
  country :: "string option"

record IngestionError =
  row_number :: nat
  file_type :: string
  error_code :: string
  raw_row :: RawCustomer

text \<open>
  The field validators of \<^verbatim>\<open>CustomerSchema\<close>; None is a raised \<^verbatim>\<open>ValueError\<close>.
  \<^verbatim>\<open>customer_schema\<close> is \<^verbatim>\<open>CustomerSchema(**row)\<close>, None when validation fails, and
  \<^verbatim>\<open>validate_row\<close> is \<^verbatim>\<open>BaseValidator.validate_row\<close> for this schema.
\<close>

definition validate_customer_code :: "string \<Rightarrow> string option" where
  "validate_customer_code v = (if v = [] \<or> py_strip v = [] then None else Some (py_strip v))"

definition validate_email :: "string option \<Rightarrow> string option option" where
  "validate_email v =
     (case v of
        None \<Rightarrow> Some None
      | Some s \<Rightarrow>
          if s \<noteq> [] \<and> py_strip s \<noteq> [] then
            (let s' = py_lower (py_strip s)
             in if email_format s' then Some (Some s') else None)
          else Some None)"

definition validate_postal_code :: "string option \<Rightarrow> string option option" where
  "validate_postal_code v =
     (case v of
        None \<Rightarrow> Some None
      | Some s \<Rightarrow>
          if s \<noteq> [] \<and> py_strip s \<noteq> [] then
            (let s' = py_strip s
             in if postal_format s' then Some (Some s') else None)
          else Some None)"

definition customer_schema :: "RawCustomer \<Rightarrow> CustomerSchema option" where
  "customer_schema row =
     (case raw_customer_code row of
        None \<Rightarrow> None
      | Some code \<Rightarrow>
          (case (validate_customer_code (ws_trim code),
                 validate_email (map_option ws_trim (raw_email row)),
                 validate_postal_code (map_option ws_trim (raw_postal_code row))) of
             (Some c, Some e, Some pc) \<Rightarrow>
               Some \<lparr>customer_code = c,
                     last_name = map_option ws_trim (raw_last_name row),
                     first_name = map_option ws_trim (raw_first_name row),
                     email = e,
                     phone = map_option ws_trim (raw_phone row),
                     address = map_option ws_trim (raw_address row),
                     postal_code = pc,
                     city = map_option ws_trim (raw_city row),
                     country = map_option ws_trim (raw_country row)\<rparr>
           | _ \<Rightarrow> None))"

definition validate_row :: "RawCustomer \<Rightarrow> nat \<Rightarrow> IngestionError + CustomerSchema" where
  "validate_row row n =
     (case customer_schema row of
        Some validated \<Rightarrow> Inr validated
      | None \<Rightarrow> Inl \<lparr>row_number = n, file_type = ''unknown'',
                       error_code = ''VALIDATION_ERROR'', raw_row = row\<rparr>)"

text \<open>
  \<^verbatim>\<open>validate_batch\<close>: the loop's variables are \<^verbatim>\<open>valid_rows\<close>, \<^verbatim>\<open>errors\<close> and
  \<^verbatim>\<open>seen_codes\<close>; \<^verbatim>\<open>row_idx\<close> starts at 2. The code of a row is added to
  \<^verbatim>\<open>seen_codes\<close> before the row is validated against the schema.
\<close>

definition row_code :: "RawCustomer \<Rightarrow> string" where
  "row_code row = py_strip (case raw_customer_code row of None \<Rightarrow> [] | Some s \<Rightarrow> s)"

definition duplicate_error :: "nat \<Rightarrow> RawCustomer \<Rightarrow> IngestionError" where
  "duplicate_error n row =
     \<lparr>row_number = n, file_type = ''customers'', error_code = ''DUPLICATE_CUSTOMER'', raw_row = row\<rparr>"

fun validate_batch_loop ::
  "nat \<Rightarrow> RawCustomer list \<Rightarrow> CustomerSchema list \<times> IngestionError list \<times> string set
     \<Rightarrow> CustomerSchema list \<times> IngestionError list \<times> string set" where
  "validate_batch_loop row_idx [] st = st"
| "validate_batch_loop row_idx (row # rows) (valid_rows, errors, seen_codes) =
     (if row_code row \<in> seen_codes then
        validate_batch_loop (row_idx + 1) rows
          (valid_rows, errors @ [duplicate_error row_idx row], seen_codes)
      else
        (case validate_row row row_idx of
           Inl error \<Rightarrow>
             validate_batch_loop (row_idx + 1) rows
               (valid_rows, errors @ [error\<lparr>file_type := ''customers''\<rparr>],
                insert (row_code row) seen_codes)
         | Inr validated_row \<Rightarrow>
             validate_batch_loop (row_idx + 1) rows
               (valid_rows @ [validated_row], errors, insert (row_code row) seen_codes)))"

definition validate_batch :: "RawCustomer list \<Rightarrow> CustomerSchema list \<times> IngestionError list" where
  "validate_batch rows =
     (case validate_batch_loop 2 rows ([], [], {}) of
        (valid_rows, errors, seen_codes) \<Rightarrow> (valid_rows, errors))"

text \<open>
  A batch of three rows: CUST002 valid, then CUST001 with a malformed email, then CUST001
  with a well-formed one.
\<close>

definition raw_customer :: "string \<Rightarrow> string option \<Rightarrow> RawCustomer" where
  "raw_customer code mail =
     \<lparr>raw_customer_code = Some code, raw_last_name = Some ''Doe'', raw_first_name = None,
      raw_email = mail, raw_phone = None, raw_address = None, raw_postal_code = Some ''75001'',
      raw_city = Some ''Paris'', raw_country = None\<rparr>"

definition shadowed_batch :: "RawCustomer list" where
  "shadowed_batch = [raw_customer ''CUST002'' (Some ''jane@example.com''),
                     raw_customer ''CUST001'' (Some ''not-an-email''),
                     raw_customer ''CUST001'' (Some ''john@example.com'')]"

section \<open>Customer deduplication (core/transform/customer_deduplicator.py)\<close>

text \<open>
  A row is a Python dictionary: a list of (key, value) pairs in insertion order with the
  values that JSON row data and the merge produce. \<^verbatim>\<open>py_get\<close> is \<^verbatim>\<open>dict.get\<close> (None for a
  missing key), \<^verbatim>\<open>py_set\<close> is item assignment. \<^verbatim>\<open>with_id\<close> builds
  \<^verbatim>\<open>{'_id': row[0], **row[1]}\<close> from a fetched (id, row_data) pair.
\<close>

datatype pyval = PNone | PStr string | PInt int | PBool bool

type_synonym pydict = "(string \<times> pyval) list"

fun py_truthy :: "pyval \<Rightarrow> bool" where
  "py_truthy PNone = False"
| "py_truthy (PStr s) = (s \<noteq> [])"
| "py_truthy (PInt i) = (i \<noteq> 0)"
| "py_truthy (PBool b) = b"

definition py_get :: "pydict \<Rightarrow> string \<Rightarrow> pyval" where
  "py_get d k = (case map_of d k of None \<Rightarrow> PNone | Some v \<Rightarrow> v)"

fun py_set :: "pydict \<Rightarrow> string \<Rightarrow> pyval \<Rightarrow> pydict" where
  "py_set [] k v = [(k, v)]"
| "py_set ((k', v') # d) k v = (if k' = k then (k', v) # d else (k', v') # py_set d k v)"

definition with_id :: "int \<times> pydict \<Rightarrow> pydict" where
  "with_id r = (case r of (i, row_data) \<Rightarrow>
     (''_id'', case map_of row_data ''_id'' of None \<Rightarrow> PInt i | Some v \<Rightarrow> v)
       # filter (\<lambda>(k, v). k \<noteq> ''_id'') row_data)"

text \<open>
  \<^verbatim>\<open>get_email_groups\<close> and \<^verbatim>\<open>get_phone_groups\<close>: a dictionary from the field's value to
  the rows carrying it, in order of first appearance; rows whose value is None or empty
  are in no group.
\<close>

fun add_to_group :: "pyval \<Rightarrow> pydict \<Rightarrow> (pyval \<times> pydict list) list \<Rightarrow> (pyval \<times> pydict list) list" where
  "add_to_group key row [] = [(key, [row])]"
| "add_to_group key row ((k, g) # groups) =
     (if k = key then (k, g @ [row]) # groups else (k, g) # add_to_group key row groups)"

definition groups_by :: "string \<Rightarrow> pydict list \<Rightarrow> (pyval \<times> pydict list) list" where
  "groups_by field rows =
     foldl (\<lambda>groups row. if py_truthy (py_get row field)
                           then add_to_group (py_get row field) row groups else groups) [] rows"

definition get_email_groups :: "pydict list \<Rightarrow> (pyval \<times> pydict list) list" where
  "get_email_groups rows = groups_by ''email'' rows"

definition get_phone_groups :: "pydict list \<Rightarrow> (pyval \<times> pydict list) list" where
  "get_phone_groups rows = groups_by ''phone'' rows"

text \<open>
  \<^verbatim>\<open>merge_customer_records\<close>: \<^verbatim>\<open>merge_fields\<close> is the inner loop over \<^verbatim>\<open>row.items()\<close>,
  \<^verbatim>\<open>merge_rows\<close> the outer loop over \<^verbatim>\<open>duplicates[1:]\<close>. \<^verbatim>\<open>join_codes\<close> is
  \<^verbatim>\<open>','.join(...)\<close>, which raises TypeError (None) on a value that is not a string.
\<close>

fun merge_fields :: "pydict \<Rightarrow> pyval list \<Rightarrow> pydict \<Rightarrow> pydict \<times> pyval list" where
  "merge_fields merged customer_codes [] = (merged, customer_codes)"
| "merge_fields merged customer_codes ((field, val) # items) =
     (if field = ''customer_code'' then merge_fields merged (customer_codes @ [val]) items
      else if py_truthy val \<and> \<not> py_truthy (py_get merged field)
           then merge_fields (py_set merged field val) customer_codes items
      else merge_fields merged customer_codes items)"

fun merge_rows :: "pydict \<Rightarrow> pyval list \<Rightarrow> pydict list \<Rightarrow> pydict \<times> pyval list" where
  "merge_rows merged customer_codes [] = (merged, customer_codes)"
| "merge_rows merged customer_codes (row # rows) =
     (case merge_fields merged customer_codes row of
        (merged', customer_codes') \<Rightarrow> merge_rows merged' customer_codes' rows)"

fun join_codes :: "pyval list \<Rightarrow> string option" where
  "join_codes [] = Some []"
| "join_codes (PStr s # rest) =
     (case join_codes rest of
        None \<Rightarrow> None
      | Some t \<Rightarrow> Some (if rest = [] then s else s @ '','' @ t))"
| "join_codes (_ # rest) = None"

definition merge_customer_records :: "pydict list \<Rightarrow> pydict option" where
  "merge_customer_records duplicates =
     (case duplicates of
        [] \<Rightarrow> Some []
      | [single] \<Rightarrow> Some single
      | first_row # others \<Rightarrow>
          (case merge_rows first_row [py_get first_row ''customer_code''] others of
             (merged, customer_codes) \<Rightarrow>
               (case join_codes (filter py_truthy customer_codes) of
                  None \<Rightarrow> None
                | Some joined \<Rightarrow>
                    Some (py_set (py_set (py_set merged ''customer_code'' (PStr joined))
                                    ''customer_codes_merged'' (PBool (1 < length customer_codes)))
                            ''duplicate_count'' (PInt (int (length duplicates)))))))"

text \<open>
  \<^verbatim>\<open>deduplicate_batch\<close>. The argument is the result of the query on \<^verbatim>\<open>raw_customers\<close> for
  the batch, None when the query raised. \<^verbatim>\<open>email_group_loop\<close> is the loop over
  \<^verbatim>\<open>email_groups.items()\<close>, \<^verbatim>\<open>unprocessed_loop\<close> the final loop over the rows not yet
  processed. \<^verbatim>\<open>phone_groups\<close> is computed and not used afterwards. The duplicate ids of
  \<^verbatim>\<open>duplicates_map\<close> are kept as the id values (the source stores \<^verbatim>\<open>str\<close> of them). The
  value is None when \<^verbatim>\<open>merge_customer_records\<close> raises.
\<close>

fun email_group_loop ::
  "(pyval \<times> pydict list) list \<Rightarrow> pydict list \<Rightarrow> (pyval \<times> pyval list) list \<Rightarrow> pyval set
     \<Rightarrow> (pydict list \<times> (pyval \<times> pyval list) list \<times> pyval set) option" where
  "email_group_loop [] dedup_customers duplicates_map processed_ids =
     Some (dedup_customers, duplicates_map, processed_ids)"
| "email_group_loop ((key, grp) # groups) dedup_customers duplicates_map processed_ids =
     (if 1 < length grp then
        (case merge_customer_records grp of
           None \<Rightarrow> None
         | Some merged \<Rightarrow>
             email_group_loop groups (dedup_customers @ [merged])
               (duplicates_map @ [(py_get (hd grp) ''_id'', map (\<lambda>r. py_get r ''_id'') (tl grp))])
               (processed_ids \<union> (\<lambda>r. py_get r ''_id'') ` set grp))
      else if length grp = 1 \<and> py_get (hd grp) ''_id'' \<notin> processed_ids then
        email_group_loop groups (dedup_customers @ [hd grp]) duplicates_map
          (insert (py_get (hd grp) ''_id'') processed_ids)
      else email_group_loop groups dedup_customers duplicates_map processed_ids)"

fun unprocessed_loop :: "pydict list \<Rightarrow> pydict list \<Rightarrow> pyval set \<Rightarrow> pydict list" where
  "unprocessed_loop [] dedup_customers processed_ids = dedup_customers"
| "unprocessed_loop (row # rows) dedup_customers processed_ids =
     (if py_get row ''_id'' \<notin> processed_ids then
        unprocessed_loop rows (dedup_customers @ [row]) (insert (py_get row ''_id'') processed_ids)
      else unprocessed_loop rows dedup_customers processed_ids)"

definition deduplicate_batch ::
  "(int \<times> pydict) list option \<Rightarrow> (pydict list \<times> (pyval \<times> pyval list) list) option" where
  "deduplicate_batch fetched =
     (case fetched of
        None \<Rightarrow> Some ([], [])
      | Some result \<Rightarrow>
          (let rows_with_id = map with_id result
           in if rows_with_id = [] then Some ([], [])
              else
                (let email_groups = get_email_groups rows_with_id;
                     phone_groups = get_phone_groups rows_with_id
                 in case email_group_loop email_groups [] [] {} of
                      None \<Rightarrow> None
                    | Some (dedup_customers, duplicates_map, processed_ids) \<Rightarrow>
                        Some (unprocessed_loop rows_with_id dedup_customers processed_ids,
                              duplicates_map))))"

text \<open>
  Two batches: two rows without email that share a phone number, and three rows with the
  emails a@x, a@x, b@x.
\<close>

definition customer_row :: "string \<Rightarrow> pyval \<Rightarrow> pyval \<Rightarrow> pydict" where
  "customer_row code mail tel =
     [(''customer_code'', PStr code), (''first_name'', PNone), (''email'', mail), (''phone'', tel)]"

definition same_phone_batch :: "(int \<times> pydict) list" where
  "same_phone_batch = [(1, customer_row ''C001'' PNone (PStr ''+33612345678'')),
                       (2, customer_row ''C002'' PNone (PStr ''+33612345678''))]"

definition same_email_batch :: "(int \<times> pydict) list" where
  "same_email_batch = [(1, customer_row ''C001'' (PStr ''a@x'') PNone),
                       (2, customer_row ''C002'' (PStr ''a@x'') (PStr ''+33612345678'')),
                       (3, customer_row ''C003'' (PStr ''b@x'') PNone)]"

subsection \<open>Lemmas on the audit table\<close>

lemma query_first_update_first:
  "query_first aid' (update_first aid f db) =
     (if aid' = aid then map_option f (query_first aid db) else query_first aid' db)"
  if "\<And>e. audit_id (f e) = audit_id e"
  using that by (induction db) auto

lemma status_of_update_first:
  assumes "\<And>e. audit_id (f e) = audit_id e" and "\<And>e. approval_status (f e) = s"
  shows "status_of aid' (update_first aid f db) =
     (if aid' = aid then map_option (\<lambda>_. s) (status_of aid db) else status_of aid' db)"
  using assms by (simp add: status_of_def query_first_update_first option.map_comp comp_def)

text \<open>
  C7 (as stated, refuted). A row whose status is REJECTED is moved to APPROVED by
  \<^verbatim>\<open>approve_recommendation\<close>: the operation has no guard on the current status.
\<close>

theorem approve_rejected_counterexample:
  "status_of ''a1'' [rejected_entry] = Some REJECTED \<and>
   status_of ''a1'' (fst (approve_recommendation [rejected_entry] ''a1'' ''admin'' None 20)) = Some APPROVED \<and>
   snd (approve_recommendation [rejected_entry] ''a1'' ''admin'' None 20) = True"
  by (simp add: status_of_def approve_recommendation_def rejected_entry_def)

text \<open>
  C7 (amended). Every approve, reject or flag operation on an existing audit id sets the
  status of that row to APPROVED, REJECTED or FLAGGED respectively, whatever the status
  was before; the status of every other audit id is unchanged; on an unknown audit id the
  operation returns false and leaves the table as it was.
\<close>

theorem audit_status_transitions:
  "status_of aid' (fst (apply_audit_op db opn)) =
     (if aid' = op_target opn \<and> status_of aid' db \<noteq> None then Some (op_status opn)
      else status_of aid' db) \<and>
   snd (apply_audit_op db opn) = (status_of (op_target opn) db \<noteq> None) \<and>
   (status_of (op_target opn) db = None \<longrightarrow> fst (apply_audit_op db opn) = db)"
proof (cases opn)
  case (Approve aid who reason now)
  then show ?thesis
    by (cases "query_first aid db")
       (auto simp: approve_recommendation_def status_of_update_first, auto simp: status_of_def)
next
  case (Reject aid who reason now)
  then show ?thesis
    by (cases "query_first aid db")
       (auto simp: reject_recommendation_def status_of_update_first, auto simp: status_of_def)
next
  case (Flag aid r)
  then show ?thesis
    by (cases "query_first aid db")
       (auto simp: flag_recommendation_def status_of_update_first, auto simp: status_of_def)
qed

theorem audit_status_transitions_witness:
  "status_of ''a1'' (fst (apply_audit_op [rejected_entry] (Flag ''a1'' ''check''))) = Some FLAGGED \<and>
   snd (apply_audit_op [rejected_entry] (Flag ''zz'' ''check'')) = False \<and>
   fst (apply_audit_op [rejected_entry] (Flag ''zz'' ''check'')) = [rejected_entry]"
  using audit_status_transitions [of "''a1''" "[rejected_entry]" "Flag ''a1'' ''check''"]
        audit_status_transitions [of "''zz''" "[rejected_entry]" "Flag ''zz'' ''check''"]
  by (simp add: status_of_def rejected_entry_def)

subsection \<open>Lemmas on ranking, diversification and the silence window\<close>

lemmas eval_defs = generate_recommendations_def get_silence_window_def contact_dates_def
  e5_db_def tests_product_extra_columns_def score_recommendation_def compute_affinity_score_def
  compute_popularity_score_def
  compute_profit_score_def preferred_family_def purchased_families_def truthy_def
  rank_recommendations_def py_prefix_def diversify_recommendations_def product_family_def
  save_recommendations_def Let_def


lemma diversify_loop_prefix:
  "int (length sel) < K \<Longrightarrow>
     diversify_loop fam K xs sel used = sel @ take (nat K - length sel) xs"
proof (induction xs arbitrary: sel used)
  case Nil
  then show ?case by simp
next
  case (Cons x xs)
  let ?sel = "sel @ [x]"
  let ?used = "if sel = [] then (if truthy (fam (product_key x)) then insert (fam (product_key x)) used else used)
               else if fam (product_key x) \<notin> used then insert (fam (product_key x)) used else used"
  have unfold: "diversify_loop fam K (x # xs) sel used =
      (if K \<le> int (length ?sel) then ?sel else diversify_loop fam K xs ?sel ?used)"
    using Cons.prems by (auto simp: Let_def)
  show ?case
  proof (cases "K \<le> int (length ?sel)")
    case True
    with Cons.prems have "nat K - length sel = 1" by simp
    with True show ?thesis unfolding unfold by simp
  next
    case False
    then have lt: "int (length ?sel) < K" by simp
    have eq: "nat K - length sel = Suc (nat K - length ?sel)" using lt by simp
    show ?thesis unfolding unfold using False Cons.IH [OF lt, of ?used] eq by simp
  qed
qed

lemma diversify_engine:
  assumes "0 \<le> K" and "int (length ranked) \<le> K"
  shows "diversify_recommendations db ranked K = ranked"
proof (cases "ranked = []")
  case True
  then show ?thesis by (simp add: diversify_recommendations_def)
next
  case False
  with assms have "0 < K" by (cases ranked) auto
  then show ?thesis using assms False
    by (simp add: diversify_recommendations_def diversify_loop_prefix py_prefix_def)
qed

lemma length_rank: "0 \<le> K \<Longrightarrow> int (length (rank_recommendations scores K)) \<le> K"
  by (simp add: rank_recommendations_def py_prefix_def)

lemma sorted_rank: "sorted_wrt (\<ge>) (map final_score (rank_recommendations scores K))"
proof -
  have "sorted (map (\<lambda>x. - final_score x) (sort_key (\<lambda>x. - final_score x) scores))"
    by (rule sorted_sort_key)
  then have "sorted_wrt (\<ge>) (map final_score (sort_key (\<lambda>x. - final_score x) scores))"
    by (simp add: sorted_wrt_map)
  then show ?thesis
    by (auto simp: rank_recommendations_def py_prefix_def simp flip: take_map intro: sorted_wrt_take)
qed

lemma ranks_enumerate: "map item_rank (enumerate_items n ss) = [n..n + int (length ss) - 1]"
proof (induction ss arbitrary: n)
  case Nil
  then show ?case by simp
next
  case (Cons s ss)
  have "[n..n + int (length (s # ss)) - 1] = n # [n + 1..n + 1 + int (length ss) - 1]"
    by (subst upto_rec1) (auto simp: algebra_simps)
  then show ?case using Cons.IH [of "n + 1"] by simp
qed

lemma scores_enumerate: "map item_score (enumerate_items n ss) = ss"
  by (induction ss arbitrary: n) auto

lemma length_enumerate: "length (enumerate_items n ss) = length ss"
  by (induction ss arbitrary: n) auto



text \<open>
  C2 (evaluation of the code on the example of the specification). For the ranked
  candidates P1 (Red, 90), P2 (Red, 88), P3 (White, 70) and K = 3 the loop accepts P2 in
  the same pass, through its branch for a family already used, so the slate is
  [P1, P2, P3] and not [P1, P3, P2].
\<close>

theorem diversify_e5_slate:
  "map product_key (diversify_recommendations e5_db e5_ranked 3) = [''P1'', ''P2'', ''P3'']"
  by (simp add: diversify_recommendations_def e5_db_def e5_ranked_def e5_score_def
        product_family_def truthy_def)

text \<open>
  C5. For a run of \<^verbatim>\<open>generate_recommendations\<close> with a maximum \<open>K \<ge> 0\<close> that returns
  success, the ranks of the persisted rows are 1, 2, ..., k in this order with \<open>k \<le> K\<close>,
  and their total scores are weakly decreasing; the same holds for the recommendations of
  the returned result.
\<close>

theorem rank_contract:
  assumes "0 \<le> K"
    and "generate_recommendations db sm run today c K en = (items, True, persisted)"
  shows "map reco_rank persisted = [1..int (length persisted)] \<and>
         int (length persisted) \<le> K \<and>
         sorted_wrt (\<ge>) (map score_total persisted) \<and>
         map item_rank items = [1..int (length items)] \<and>
         int (length items) \<le> K \<and>
         sorted_wrt (\<ge>) (map (final_score \<circ> item_score) items)"
proof -
  define all_scores where "all_scores =
     concat (map (\<lambda>(scen, products).
                    map (\<lambda>pk. score_recommendation db c pk scen (scenario_base_scores scen)) products) sm)"
  define ranked where "ranked = rank_recommendations all_scores K"
  have len: "int (length ranked) \<le> K" using assms(1) by (simp add: ranked_def length_rank)
  have div: "diversify_recommendations db ranked K = ranked"
    using assms(1) len by (rule diversify_engine)
  from assms(2) have items: "items = enumerate_items 1 ranked"
    and pers: "persisted = save_recommendations db run c items"
    by (auto simp: generate_recommendations_def Let_def div
                  all_scores_def [symmetric] ranked_def [symmetric] split: if_splits)
  have r: "map item_rank items = [1..int (length items)]"
    by (simp add: items ranks_enumerate length_enumerate)
  have l: "int (length items) \<le> K" using len by (simp add: items length_enumerate)
  have s: "sorted_wrt (\<ge>) (map (final_score \<circ> item_score) items)"
    using sorted_rank [of all_scores K]
    by (simp add: items ranked_def scores_enumerate flip: map_map)
  show ?thesis
  proof (cases "connected db")
    case True
    then have "map reco_rank persisted = map item_rank items"
      and "length persisted = length items"
      and "map score_total persisted = map (final_score \<circ> item_score) items"
      by (simp_all add: pers save_recommendations_def comp_def)
    with r l s show ?thesis by simp
  next
    case False
    then have "persisted = []" by (simp add: pers save_recommendations_def)
    with r l s assms(1) show ?thesis by simp
  qed
qed

theorem rank_contract_witness:
  "(0::int) \<le> 2 \<and>
   fst (snd (generate_recommendations e5_db
       [(REBUY, [''P2'', ''P1'']), (CROSS_SELL, [''P3''])] ''run'' 1000 ''C001'' 2 True)) = True \<and>
   map reco_rank (snd (snd (generate_recommendations e5_db
       [(REBUY, [''P2'', ''P1'']), (CROSS_SELL, [''P3''])] ''run'' 1000 ''C001'' 2 True))) = [1, 2] \<and>
   map score_total (snd (snd (generate_recommendations e5_db
       [(REBUY, [''P2'', ''P1'']), (CROSS_SELL, [''P3''])] ''run'' 1000 ''C001'' 2 True))) = [73.5, 68.5]"
proof -
  define r where "r = generate_recommendations e5_db
       [(REBUY, [''P2'', ''P1'']), (CROSS_SELL, [''P3''])] ''run'' 1000 ''C001'' 2 True"
  have ok: "fst (snd r) = True"
    by (simp add: r_def eval_defs)
  have sc: "map score_total (snd (snd r)) = [73.5, 68.5]"
    by (simp add: r_def eval_defs eval_nat_numeral)
  have ev: "generate_recommendations e5_db
       [(REBUY, [''P2'', ''P1'']), (CROSS_SELL, [''P3''])] ''run'' 1000 ''C001'' 2 True
       = (fst r, True, snd (snd r))"
    using ok by (simp add: r_def [symmetric] prod_eq_iff)
  have len: "length (snd (snd r)) = 2"
    using arg_cong [OF sc, of length] by simp
  show ?thesis
    using rank_contract [OF _ ev] ok sc len by (simp add: r_def [symmetric] upto.simps)
qed

subsection \<open>Scoring\<close>

text \<open>
  A product whose popularity is 0 gets the popularity score 50 and the profit score 50, as
  one whose popularity is NULL does: the test \<^verbatim>\<open>if row[0]\<close> is false for 0.
\<close>

lemma zero_popularity_scored_as_missing:
  "map p_popularity_score (product zero_popularity_db) = [Some 0] \<and>
   popularity_score (score_recommendation zero_popularity_db ''C001'' ''WINE000'' REBUY 85) = 50 \<and>
   profit_score (score_recommendation zero_popularity_db ''C001'' ''WINE000'' REBUY 85) = 50"
  by (simp add: zero_popularity_db_def score_recommendation_def compute_popularity_score_def
        compute_profit_score_def Let_def)

text \<open>
  C4. The scorer does not give the family bonus on the tables of the repository. The
  product statement of \<^verbatim>\<open>compute_affinity_score\<close> names the column \<^verbatim>\<open>price_level\<close>, which
  neither the product table of the tests nor the one of \<^verbatim>\<open>core/db/models.py\<close> has, so the
  statement raises and the \<^verbatim>\<open>except\<close> branch returns the neutral 50.0. For the customer
  whose only purchase is WINE001 (family Red, popularity 0.8) under REBUY, on the product
  table of the tests, the scorer gives base 85, affinity 50, popularity 80, profit 80 and
  the final score 0.4 * 50 + 0.3 * 80 + 0.2 * 80 + 0.1 * 85 = 68.5, although Red is the
  customer's top family. Only on a product table that had a \<^verbatim>\<open>price_level\<close> column would
  the same input give the affinity 75 and the final score 78.5.
\<close>

theorem score_recommendation_affinity_neutral:
  "''price_level'' \<notin> set ([''product_key'', ''family'', ''popularity_score'']
                              @ product_extra_columns silence_db) \<and>
   ''price_level'' \<notin> set models_product_columns \<and>
   customer_order_lines silence_db ''C001'' =
     [\<lparr>ol_customer_code = ''C001'', ol_product_key = ''WINE001'', ol_order_date = 880,
       ol_amount_ht = 42\<rparr>] \<and>
   fetch_product (product silence_db) ''WINE001'' =
     Some \<lparr>p_product_key = ''WINE001'', p_family = Some ''Red'', p_popularity_score = Some 0.8\<rparr> \<and>
   preferred_family silence_db ''C001'' = Some (Some ''Red'') \<and>
   score_recommendation silence_db ''C001'' ''WINE001'' REBUY (scenario_base_scores REBUY) =
     \<lparr>product_key = ''WINE001'', scenario = REBUY, base_score = 85, affinity_score = 50,
      popularity_score = 80, profit_score = 80, final_score = 68.5\<rparr> \<and>
   score_recommendation
       (silence_db\<lparr>product_extra_columns := ''price_level'' # product_extra_columns silence_db\<rparr>)
       ''C001'' ''WINE001'' REBUY (scenario_base_scores REBUY) =
     \<lparr>product_key = ''WINE001'', scenario = REBUY, base_score = 85, affinity_score = 75,
      popularity_score = 80, profit_score = 80, final_score = 78.5\<rparr>"
  by (simp add: silence_db_def tests_product_extra_columns_def models_product_columns_def
        customer_order_lines_def preferred_family_def purchased_families_def
        score_recommendation_def compute_affinity_score_def compute_popularity_score_def
        compute_profit_score_def truthy_def Let_def)

subsection \<open>Master profiles\<close>

text \<open>
  C1. Stage E persists no segment on the profile table of the repository, and computes
  none. The insert statement of \<^verbatim>\<open>build_profiles\<close> names the column \<^verbatim>\<open>rfm_score\<close>, which
  the \<^verbatim>\<open>client_master_profile\<close> table of \<^verbatim>\<open>core/db/models.py\<close> and of the migration does
  not have: for the two customers C001 (one order line) and C002 (no order line) the
  statement raises each time, the table stays empty and 0 profiles are reported. On a
  table that had the three columns of the statement, both customers would be stored with
  the constant segment STANDARD, C002 with the rfm score 0 and C001 with the sum 9 of the
  placeholder scores; C002 would not be a PROSPECT, and no quartile enters either value.
\<close>

theorem build_profiles_persists_no_segment:
  "''rfm_score'' \<notin> set (client_master_profile_columns silence_db) \<and>
   customer silence_db = [''C001'', ''C002''] \<and>
   customer_order_lines silence_db ''C002'' = [] \<and>
   build_profiles silence_db = (silence_db, 0) \<and>
   profile_of (fst (build_profiles silence_db)) ''C001'' = None \<and>
   profile_of (fst (build_profiles silence_db)) ''C002'' = None \<and>
   build_profiles
       (silence_db\<lparr>client_master_profile_columns := [''customer_code'', ''rfm_score'', ''segment'']\<rparr>) =
     (silence_db\<lparr>client_master_profile_columns := [''customer_code'', ''rfm_score'', ''segment''],
                  client_master_profile := [(''C001'', 9, ''STANDARD''), (''C002'', 0, ''STANDARD'')]\<rparr>,
      2)"
  by (simp add: silence_db_def models_client_master_profile_columns_def customer_order_lines_def
        build_profiles_def profile_of_def profile_row_def compute_rfm_scores_def or_zero_def)

subsection \<open>NURTURE candidates\<close>

lemma upt3: "[0..<3] = [0, 1, 2]" by (simp add: upt_rec)

text \<open>
  C8 (as stated, refuted). For the same product table and the same customer, two
  executions whose random draws differ return different product lists, and a customer
  with no order at all (at most 3 orders) gets no NURTURE candidates.
\<close>

theorem nurture_unseeded_counterexample:
  "match_nurture nurture_db ''C001'' draws_ascending = Some [''P1'', ''P2'', ''P3''] \<and>
   match_nurture nurture_db ''C001'' draws_descending = Some [''P3'', ''P2'', ''P1''] \<and>
   length (customer_order_lines nurture_db ''C002'') = 0 \<and>
   match_nurture nurture_db ''C002'' draws_ascending = None"
  by (simp add: match_nurture_def nurture_db_def e5_db_def customer_order_lines_def
        nurture_rows_def nurture_eligible_def order_by_random_def draws_ascending_def
        draws_descending_def upt3 Let_def)

lemma set_order_by_random: "set (order_by_random rnd rows) = set rows"
proof -
  let ?z = "zip (map rnd [0..<length rows]) rows"
  have m: "map snd ?z = rows" by (rule map_snd_zip) simp
  have "set (order_by_random rnd rows) = snd ` set ?z"
    by (simp add: order_by_random_def)
  also have "\<dots> = set (map snd ?z)" by (simp only: set_map)
  also have "\<dots> = set rows" by (simp only: m)
  finally show ?thesis .
qed

lemma length_order_by_random: "length (order_by_random rnd rows) = length rows"
  by (simp add: order_by_random_def)

text \<open>
  C8 (amended). With a working session, for a customer with 1 to 3 order lines the
  NURTURE scenario returns the keys of at most 3 products (3 when at least 3 are
  eligible, none when no product is eligible), every one of them a product with
  popularity at least 0.3 and a non-null family, in the order of the database's random
  draws; for a customer with no order line or more than 3 it returns nothing. The order
  is not a function of the run or the customer.
\<close>

theorem match_nurture_sample:
  assumes "connected db"
  shows "match_nurture db c rnd =
           (if length (customer_order_lines db c) = 0 \<or> 3 < length (customer_order_lines db c) \<or>
               nurture_eligible db = []
            then None else Some (map p_product_key (nurture_rows db rnd))) \<and>
         length (nurture_rows db rnd) = min 3 (length (nurture_eligible db)) \<and>
         (\<forall>p \<in> set (nurture_rows db rnd).
            p \<in> set (product db) \<and> p_family p \<noteq> None \<and>
            (\<exists>v. p_popularity_score p = Some v \<and> 0.3 \<le> v))"
proof -
  have len: "length (nurture_rows db rnd) = min 3 (length (nurture_eligible db))"
    by (simp add: nurture_rows_def length_order_by_random)
  have empty: "nurture_rows db rnd = [] \<longleftrightarrow> nurture_eligible db = []"
    using len by (metis length_0_conv min_0R min_def zero_neq_numeral)
  have mem: "p \<in> set (nurture_eligible db)" if "p \<in> set (nurture_rows db rnd)" for p
    using that set_order_by_random [of rnd "nurture_eligible db"]
    by (auto simp: nurture_rows_def dest: in_set_takeD)
  have props: "p \<in> set (product db) \<and> p_family p \<noteq> None \<and>
            (\<exists>v. p_popularity_score p = Some v \<and> 0.3 \<le> v)" if "p \<in> set (nurture_rows db rnd)" for p
    using mem [OF that] by (auto simp: nurture_eligible_def split: option.splits)
  show ?thesis using assms len empty props
    by (auto simp: match_nurture_def Let_def)
qed


theorem match_nurture_sample_witness:
  "connected nurture_db \<and>
   length (customer_order_lines nurture_db ''C001'') = 1 \<and>
   match_nurture nurture_db ''C001'' draws_ascending =
     Some (map p_product_key (nurture_rows nurture_db draws_ascending)) \<and>
   length (nurture_rows nurture_db draws_ascending) = 3 \<and>
   \<lparr>p_product_key = ''P3'', p_family = Some ''White'', p_popularity_score = Some 0.7\<rparr>
     \<in> set (nurture_rows nurture_db draws_ascending)"
proof -
  have c: "connected nurture_db" by (simp add: nurture_db_def e5_db_def)
  have o: "length (customer_order_lines nurture_db ''C001'') = 1"
    by (simp add: nurture_db_def customer_order_lines_def)
  have e: "nurture_eligible nurture_db = product e5_db"
    by (simp add: nurture_db_def e5_db_def nurture_eligible_def)
  have r: "nurture_rows nurture_db draws_ascending = product e5_db"
    by (simp add: nurture_rows_def e order_by_random_def e5_db_def draws_ascending_def upt3)
  have p: "product e5_db \<noteq> []" by (simp add: e5_db_def)
  show ?thesis
    using match_nurture_sample [OF c, of "''C001''" draws_ascending]
    by (simp add: c o e p) (simp add: r e5_db_def)
qed

subsection \<open>Raw staging load\<close>

lemma load_loop_present:
  "(\<forall>r \<in> set rows. (b, h r) \<in> raw_keys t) \<Longrightarrow>
     fst (load_loop m h b rows t f l e) = t"
  by (induction rows arbitrary: f l e) auto

lemma raw_keys_append: "raw_keys (t @ [(b, k, d)]) = insert (b, k) (raw_keys t)"
  by (auto simp: raw_keys_def)

lemma load_loop_clean:
  "load_loop m h b rows t f l e = (t', f', l', e') \<Longrightarrow> \<not> f' \<Longrightarrow>
     \<not> f \<and> raw_keys t \<subseteq> raw_keys t' \<and> (\<forall>r \<in> set rows. (b, h r) \<in> raw_keys t')"
proof (induction rows arbitrary: t f l e)
  case Nil
  then show ?case by simp
next
  case (Cons row rows)
  show ?case
  proof (cases f)
    case True
    with Cons.prems Cons.IH [of t True l "e @ [l + 1]"] show ?thesis by simp
  next
    case f: False
    show ?thesis
    proof (cases "(b, h row) \<in> raw_keys t")
      case True
      with f Cons.prems Cons.IH [of t m l "e @ [l + 1]"] show ?thesis by auto
    next
      case False
      with f Cons.prems Cons.IH [of "t @ [(b, h row, row)]" False "l + 1" e]
      show ?thesis by (auto simp: raw_keys_append)
    qed
  qed
qed

lemma load_twice:
  "fst (load_raw_customers m h (fst (load_raw_customers m h t rows b)) rows b) =
   fst (load_raw_customers m h t rows b)"
proof (cases "rows = []")
  case True
  then show ?thesis by (simp add: load_raw_customers_def)
next
  case ne: False
  obtain t' f' l' e' where run: "load_loop m h b rows t False 0 [] = (t', f', l', e')"
    by (metis prod_cases4)
  show ?thesis
  proof (cases f')
    case True
    with ne run have "fst (load_raw_customers m h t rows b) = t"
      by (simp add: load_raw_customers_def)
    then show ?thesis by simp
  next
    case False
    with ne run have first: "fst (load_raw_customers m h t rows b) = t'"
      by (simp add: load_raw_customers_def)
    from load_loop_clean [OF run False] have "\<forall>r \<in> set rows. (b, h r) \<in> raw_keys t'" by simp
    then have "fst (load_loop m h b rows t' False 0 []) = t'" by (rule load_loop_present)
    then have "fst (load_raw_customers m h t' rows b) = t'"
      using ne by (auto simp: load_raw_customers_def split: prod.splits)
    with first show ?thesis by simp
  qed
qed


lemma raw_keys_set: "raw_keys t = set (map raw_key t)"
  by (auto simp: raw_keys_def raw_key_def)

lemma load_loop_distinct:
  "distinct (map raw_key t) \<Longrightarrow> distinct (map raw_key (fst (load_loop m h b rows t f l e)))"
  by (induction rows arbitrary: t f l e) (auto simp: raw_keys_set raw_key_def)

lemma load_distinct:
  "distinct (map raw_key t) \<Longrightarrow> distinct (map raw_key (fst (load_raw_customers m h t rows b)))"
  using load_loop_distinct [of t m h b rows False 0 "[]"]
  by (auto simp: load_raw_customers_def split: prod.splits)

text \<open>
  C9. Loading the same rows under the same batch id a second time leaves
  \<^verbatim>\<open>raw_customers\<close> exactly as the first load left it, for every hash function and under
  both behaviours of a failed statement; and the load keeps the (batch_id, row_hash) pairs
  of the table pairwise different.
\<close>

theorem load_raw_customers_idempotent:
  "fst (load_raw_customers m h (fst (load_raw_customers m h t rows b)) rows b) =
     fst (load_raw_customers m h t rows b) \<and>
   (distinct (map raw_key t) \<longrightarrow>
      distinct (map raw_key (fst (load_raw_customers m h t rows b))))"
  by (simp add: load_twice load_distinct)

theorem load_raw_customers_idempotent_witness:
  "distinct (map raw_key ([] :: string raw_table)) \<and>
   fst (load_raw_customers False id [] [''a'', ''b'', ''a''] ''B1'') =
     [(''B1'', ''a'', ''a''), (''B1'', ''b'', ''b'')] \<and>
   fst (load_raw_customers False id [(''B1'', ''a'', ''a''), (''B1'', ''b'', ''b'')]
          [''a'', ''b'', ''a''] ''B1'') =
     [(''B1'', ''a'', ''a''), (''B1'', ''b'', ''b'')] \<and>
   fst (load_raw_customers True id [] [''a'', ''b'', ''a''] ''B1'') = [] \<and>
   distinct (map raw_key (fst (load_raw_customers False id [] [''a'', ''b'', ''a''] ''B1'')))"
proof -
  have one: "fst (load_raw_customers False id [] [''a'', ''b'', ''a''] ''B1'') =
     [(''B1'', ''a'', ''a''), (''B1'', ''b'', ''b'')]"
    by (simp add: load_raw_customers_def raw_keys_def)
  have strict: "fst (load_raw_customers True id [] [''a'', ''b'', ''a''] ''B1'') = []"
    by (simp add: load_raw_customers_def raw_keys_def)
  show ?thesis
    using load_raw_customers_idempotent [of False id "[]" "[''a'', ''b'', ''a'']" "''B1''"]
    by (simp add: one strict)
qed

subsection \<open>Customer batch validation\<close>

lemmas string_defs = py_strip_def py_space_def ws_trim_def ws_space_def py_lower_def
  email_format_def postal_format_def

lemmas schema_defs = customer_schema_def validate_customer_code_def validate_email_def
  validate_postal_code_def validate_row_def row_code_def duplicate_error_def raw_customer_def

lemma dropWhile_drop_trailing_commute:
  "dropWhile P (drop_trailing Q xs) = drop_trailing Q (dropWhile P xs)"
  by (induction xs) (auto split: list.splits)

lemma dropWhile_weaker: "(\<And>x. W x \<Longrightarrow> P x) \<Longrightarrow> dropWhile P (dropWhile W xs) = dropWhile P xs"
  by (induction xs) auto

lemma drop_trailing_weaker:
  "(\<And>x. W x \<Longrightarrow> P x) \<Longrightarrow> drop_trailing P (drop_trailing W xs) = drop_trailing P xs"
  by (induction xs) (auto split: list.splits)

lemma ws_space_py_space: "ws_space ch \<Longrightarrow> py_space ch"
  by (auto simp: ws_space_def py_space_def)

lemma py_strip_ws_trim: "py_strip (ws_trim s) = py_strip s"
proof -
  have "py_strip (ws_trim s) =
        drop_trailing py_space (drop_trailing ws_space (dropWhile py_space (dropWhile ws_space s)))"
    by (simp add: py_strip_def ws_trim_def dropWhile_drop_trailing_commute)
  also have "\<dots> = drop_trailing py_space (dropWhile py_space s)"
    by (simp add: dropWhile_weaker drop_trailing_weaker ws_space_py_space)
  finally show ?thesis by (simp add: py_strip_def)
qed

lemma customer_schema_code:
  assumes "customer_schema row = Some v"
  shows "customer_code v = row_code row"
proof (cases "raw_customer_code row")
  case None
  with assms show ?thesis by (simp add: customer_schema_def)
next
  case (Some code)
  show ?thesis
  proof (cases "validate_customer_code (ws_trim code)")
    case None
    with assms Some show ?thesis by (simp add: customer_schema_def)
  next
    case c: (Some c)
    then have cc: "c = py_strip code"
      by (simp add: validate_customer_code_def py_strip_ws_trim split: if_splits)
    show ?thesis
    proof (cases "validate_email (map_option ws_trim (raw_email row))")
      case None
      with assms Some c show ?thesis by (simp add: customer_schema_def)
    next
      case e: (Some e)
      show ?thesis
      proof (cases "validate_postal_code (map_option ws_trim (raw_postal_code row))")
        case None
        with assms Some c e show ?thesis by (simp add: customer_schema_def)
      next
        case pc: (Some pc)
        with assms Some c e have "customer_code v = c"
          by (auto simp: customer_schema_def)
        with cc Some show ?thesis by (simp add: row_code_def)
      qed
    qed
  qed
qed

lemma validate_row_Inr: "validate_row row n = Inr v \<longleftrightarrow> customer_schema row = Some v"
  by (auto simp: validate_row_def split: option.splits)

lemma validate_batch_loop_append:
  "validate_batch_loop n (xs @ ys) st = validate_batch_loop (n + length xs) ys (validate_batch_loop n xs st)"
  by (induction n xs st rule: validate_batch_loop.induct) (auto split: sum.splits)

lemma validate_batch_loop_result:
  assumes "validate_batch_loop n rows (valid, errors, seen) = (valid', errors', seen')"
  shows "seen' = seen \<union> row_code ` set rows \<and> set errors \<subseteq> set errors' \<and>
         set valid' \<subseteq> set valid \<union> {v. \<exists>r \<in> set rows. customer_schema r = Some v \<and> row_code r \<notin> seen}"
  using assms
proof (induction rows arbitrary: n valid errors seen)
  case Nil
  then show ?case by simp
next
  case (Cons row rows)
  show ?case
  proof (cases "row_code row \<in> seen")
    case True
    with Cons.prems Cons.IH [of "n + 1" valid "errors @ [duplicate_error n row]" seen]
    show ?thesis by auto
  next
    case notseen: False
    show ?thesis
    proof (cases "validate_row row n")
      case (Inl err)
      with notseen Cons.prems
        Cons.IH [of "n + 1" valid "errors @ [err\<lparr>file_type := ''customers''\<rparr>]" "insert (row_code row) seen"]
      show ?thesis by auto
    next
      case (Inr v)
      then have "customer_schema row = Some v" by (simp add: validate_row_Inr)
      with Inr notseen Cons.prems
        Cons.IH [of "n + 1" "valid @ [v]" errors "insert (row_code row) seen"]
      show ?thesis by auto
    qed
  qed
qed

lemma validate_batch_loop_no_code:
  assumes "validate_batch_loop n rows (valid, errors, seen) = (valid', errors', seen')"
    and "\<forall>v \<in> set valid. customer_code v \<noteq> c"
    and "c \<in> seen \<or> c \<notin> row_code ` set rows"
  shows "\<forall>v \<in> set valid'. customer_code v \<noteq> c"
proof
  fix v assume "v \<in> set valid'"
  with validate_batch_loop_result [OF assms(1)]
  consider "v \<in> set valid" | r where "r \<in> set rows" "customer_schema r = Some v" "row_code r \<notin> seen"
    by auto
  then show "customer_code v \<noteq> c"
  proof cases
    case 1
    with assms(2) show ?thesis by simp
  next
    case 2
    with assms(3) customer_schema_code [OF 2(2)] show ?thesis by auto
  qed
qed


text \<open>
  C10. In a batch \<open>pre @ first # mid @ later # post\<close> where \<open>first\<close> is the first row
  carrying the customer code \<open>c\<close> and fails schema validation, and \<open>later\<close> carries the
  same code, \<open>later\<close> is reported as DUPLICATE_CUSTOMER under its row number (its index
  plus 2), whether or not it is schema-valid, and no valid row of the output has the
  customer code \<open>c\<close>.
\<close>

theorem duplicate_after_invalid_first:
  assumes "rows = pre @ first # mid @ later # post"
    and "row_code first = c" and "row_code later = c"
    and "c \<notin> row_code ` set pre"
    and "customer_schema first = None"
  shows "duplicate_error (length pre + length mid + 3) later \<in> set (snd (validate_batch rows)) \<and>
         (\<forall>v \<in> set (fst (validate_batch rows)). customer_code v \<noteq> c)"
proof -
  obtain v1 e1 s1 where st1: "validate_batch_loop 2 pre ([], [], {}) = (v1, e1, s1)"
    by (metis prod_cases3)
  have s1: "s1 = row_code ` set pre" using validate_batch_loop_result [OF st1] by simp
  have n1: "\<forall>v \<in> set v1. customer_code v \<noteq> c"
    using validate_batch_loop_no_code [OF st1, of c] assms(4) by simp
  let ?err = "\<lparr>row_number = 2 + length pre, file_type = ''customers'',
                error_code = ''VALIDATION_ERROR'', raw_row = first\<rparr>"
  have st2: "validate_batch_loop (2 + length pre) [first] (v1, e1, s1) =
               (v1, e1 @ [?err], insert c s1)"
    using assms(2,4,5) s1 by (simp add: validate_row_def)
  obtain v3 e3 s3 where st3:
    "validate_batch_loop (3 + length pre) mid (v1, e1 @ [?err], insert c s1) = (v3, e3, s3)"
    by (metis prod_cases3)
  have s3: "c \<in> s3" using validate_batch_loop_result [OF st3] by simp
  have n3: "\<forall>v \<in> set v3. customer_code v \<noteq> c"
    using validate_batch_loop_no_code [OF st3 n1] by simp
  let ?dup = "duplicate_error (length pre + length mid + 3) later"
  have st4: "validate_batch_loop (3 + length pre + length mid) [later] (v3, e3, s3) =
               (v3, e3 @ [?dup], s3)"
    using assms(3) s3 by (simp add: add.commute add.left_commute)
  obtain v5 e5 s5 where st5:
    "validate_batch_loop (4 + length pre + length mid) post (v3, e3 @ [?dup], s3) = (v5, e5, s5)"
    by (metis prod_cases3)
  have e5: "?dup \<in> set e5" using validate_batch_loop_result [OF st5] by auto
  have n5: "\<forall>v \<in> set v5. customer_code v \<noteq> c"
    using validate_batch_loop_no_code [OF st5 n3] s3 by simp
  have rows: "rows = pre @ [first] @ mid @ [later] @ post" using assms(1) by simp
  have "validate_batch_loop 2 rows ([], [], {}) =
        validate_batch_loop (2 + length pre) ([first] @ mid @ [later] @ post) (v1, e1, s1)"
    by (simp only: rows validate_batch_loop_append st1)
  also have "\<dots> = validate_batch_loop (2 + length pre + length [first]) (mid @ [later] @ post)
                      (v1, e1 @ [?err], insert c s1)"
    by (simp only: validate_batch_loop_append st2)
  also have "2 + length pre + length [first] = 3 + length pre" by simp
  also have "validate_batch_loop (3 + length pre) (mid @ [later] @ post)
                 (v1, e1 @ [?err], insert c s1) =
             validate_batch_loop (3 + length pre + length mid) ([later] @ post) (v3, e3, s3)"
    by (simp only: validate_batch_loop_append st3)
  also have "\<dots> = validate_batch_loop (3 + length pre + length mid + length [later]) post
                      (v3, e3 @ [?dup], s3)"
    by (simp only: validate_batch_loop_append st4)
  also have "3 + length pre + length mid + length [later] = 4 + length pre + length mid" by simp
  also have "validate_batch_loop (4 + length pre + length mid) post (v3, e3 @ [?dup], s3) =
             (v5, e5, s5)"
    by (rule st5)
  finally have "validate_batch_loop 2 rows ([], [], {}) = (v5, e5, s5)" .
  then show ?thesis using e5 n5 by (simp add: validate_batch_def)
qed


theorem duplicate_after_invalid_first_witness:
  "shadowed_batch = [raw_customer ''CUST002'' (Some ''jane@example.com'')] @
       raw_customer ''CUST001'' (Some ''not-an-email'') # [] @
       raw_customer ''CUST001'' (Some ''john@example.com'') # [] \<and>
   row_code (raw_customer ''CUST001'' (Some ''not-an-email'')) = ''CUST001'' \<and>
   row_code (raw_customer ''CUST001'' (Some ''john@example.com'')) = ''CUST001'' \<and>
   ''CUST001'' \<notin> row_code ` set [raw_customer ''CUST002'' (Some ''jane@example.com'')] \<and>
   customer_schema (raw_customer ''CUST001'' (Some ''not-an-email'')) = None \<and>
   customer_schema (raw_customer ''CUST001'' (Some ''john@example.com'')) \<noteq> None \<and>
   duplicate_error 4 (raw_customer ''CUST001'' (Some ''john@example.com''))
     \<in> set (snd (validate_batch shadowed_batch)) \<and>
   map customer_code (fst (validate_batch shadowed_batch)) = [''CUST002'']"
proof -
  let ?r0 = "raw_customer ''CUST002'' (Some ''jane@example.com'')"
  let ?r1 = "raw_customer ''CUST001'' (Some ''not-an-email'')"
  let ?r2 = "raw_customer ''CUST001'' (Some ''john@example.com'')"
  have rows: "shadowed_batch = [?r0] @ ?r1 # [] @ ?r2 # []"
    by (simp add: shadowed_batch_def)
  have c1: "row_code ?r1 = ''CUST001''" and c2: "row_code ?r2 = ''CUST001''"
    and c0: "row_code ?r0 = ''CUST002''"
    by (simp_all add: row_code_def raw_customer_def py_strip_def py_space_def)
  have pre: "''CUST001'' \<notin> row_code ` set [?r0]" by (simp add: c0)
  have bad: "customer_schema ?r1 = None"
    by (simp add: schema_defs string_defs Let_def)
  have good: "customer_schema ?r2 \<noteq> None"
    by (simp add: schema_defs string_defs Let_def)
  have codes: "map customer_code (fst (validate_batch shadowed_batch)) = [''CUST002'']"
    by (simp add: validate_batch_def shadowed_batch_def schema_defs string_defs Let_def)
  show ?thesis
    using duplicate_after_invalid_first [OF rows c1 c2 pre bad] rows c1 c2 pre bad good codes
    by simp
qed

subsection \<open>Customer deduplication\<close>

lemmas dedup_defs = deduplicate_batch_def get_email_groups_def get_phone_groups_def groups_by_def
  with_id_def py_get_def customer_row_def merge_customer_records_def Let_def

text \<open>
  C3 (evaluation of the code on a failing input). Two rows without email that share a
  phone number form one phone group of size 2 and no email group; they are not merged:
  \<^verbatim>\<open>deduplicate_batch\<close> returns both rows unchanged and an empty duplicates map, so 2
  customers where the claim counts 1.
\<close>

theorem phone_duplicates_not_merged:
  "map (\<lambda>(k, g). (k, length g)) (get_phone_groups (map with_id same_phone_batch)) =
     [(PStr ''+33612345678'', 2)] \<and>
   get_email_groups (map with_id same_phone_batch) = [] \<and>
   deduplicate_batch (Some same_phone_batch) = Some (map with_id same_phone_batch, [])"
  by (simp add: same_phone_batch_def dedup_defs)

text \<open>
  The email path does merge: for the emails a@x, a@x, b@x the result has 2 customers, the
  merged one with the customer code C001,C002 and the duplicate count 2.
\<close>

lemma email_duplicates_merged:
  "deduplicate_batch (Some same_email_batch) =
     Some ([[(''_id'', PInt 1), (''customer_code'', PStr ''C001,C002''), (''first_name'', PNone),
             (''email'', PStr ''a@x''), (''phone'', PStr ''+33612345678''),
             (''customer_codes_merged'', PBool True), (''duplicate_count'', PInt 2)],
            with_id (3, customer_row ''C003'' (PStr ''b@x'') PNone)],
           [(PInt 1, [PInt 2])])"
  by (simp add: same_email_batch_def dedup_defs)


end
